theory Spec2Isabelle
  imports Main "HOL-Library.AList"
begin

section \<open>Python values, exceptions and the world around the program\<close>

text \<open>
  The exceptions the program can end with. \<open>ValueError\<close> and \<open>AssertionError\<close> are
  raised by \<open>MastodonClientApp.__init__\<close> itself, \<open>AttributeError\<close>, \<open>TypeError\<close> and
  \<open>KeyError\<close> by Python's attribute and item access, \<open>YAMLError\<close> by the YAML library
  and \<open>MastodonError\<close> by the Mastodon library.
\<close>

datatype error =
    ValueError | AssertionError | AttributeError | TypeError | KeyError
  | FileNotFoundError | YAMLError | MastodonError

text \<open>
  A dictionary is either a builtin \<open>dict\<close> or the Mastodon library's \<open>AttribAccessDict\<close>
  (a subclass of \<open>dict\<close> whose \<open>__getattr__\<close> looks the attribute name up as a key and
  raises \<open>AttributeError\<close> when the key is missing). Items are kept in insertion order.
\<close>

datatype dict_class = Plain_dict | AttribAccessDict

datatype pyval =
    PNone
  | PBool bool
  | PInt int
  | PStr string
  | PList "pyval list"
  | PDict dict_class "(string \<times> pyval) list"
  | POther string bool
  | PPath "string list"
  | PMastodon string pyval

text \<open>
  The keys of a dictionary are strings, as the keys of the configuration file and of the
  library's answers are. \<open>POther r t\<close> is any other scalar that a YAML document can hold
  (a float, a date, bytes), given by its \<open>repr\<close> and its truth value. \<open>PPath\<close> is a
  \<open>pathlib.Path\<close>, as the list of its components. \<open>PMastodon c u\<close> is the client object
  that \<open>Mastodon(client_id=c, api_base_url=u)\<close> constructs.
\<close>

type_synonym items = "(string \<times> pyval) list"

text \<open>Python's truth value of an object, as \<open>if x\<close>, \<open>not x\<close> and \<open>x and y\<close> test it.\<close>

fun truthy :: "pyval \<Rightarrow> bool" where
  "truthy PNone = False"
| "truthy (PBool b) = b"
| "truthy (PInt i) = (i \<noteq> 0)"
| "truthy (PStr s) = (s \<noteq> [])"
| "truthy (PList xs) = (xs \<noteq> [])"
| "truthy (PDict c its) = (its \<noteq> [])"
| "truthy (POther r t) = t"
| "truthy (PPath p) = True"
| "truthy (PMastodon c u) = True"

text \<open>
  \<open>v.name\<close> for a name that is no method of the builtin types (\<open>instance\<close>, \<open>base_url\<close>,
  \<open>id\<close>): only an \<open>AttribAccessDict\<close> holding the key answers.
\<close>

fun getattr :: "pyval \<Rightarrow> string \<Rightarrow> error + pyval" where
  "getattr (PDict AttribAccessDict its) name =
     (case map_of its name of Some v \<Rightarrow> Inr v | None \<Rightarrow> Inl AttributeError)"
| "getattr v name = Inl AttributeError"

text \<open>\<open>v.get(k, d)\<close>: a dictionary method; every other value has no attribute \<open>get\<close>.\<close>

fun dict_get :: "pyval \<Rightarrow> string \<Rightarrow> pyval \<Rightarrow> error + pyval" where
  "dict_get (PDict c its) k d = Inr (case map_of its k of Some v \<Rightarrow> v | None \<Rightarrow> d)"
| "dict_get v k d = Inl AttributeError"

text \<open>\<open>v[k]\<close> and \<open>v[k] = x\<close> with a string key \<open>k\<close>.\<close>

fun getitem :: "pyval \<Rightarrow> string \<Rightarrow> error + pyval" where
  "getitem (PDict c its) k = (case map_of its k of Some v \<Rightarrow> Inr v | None \<Rightarrow> Inl KeyError)"
| "getitem v k = Inl TypeError"

fun setitem :: "pyval \<Rightarrow> string \<Rightarrow> pyval \<Rightarrow> error + pyval" where
  "setitem (PDict c its) k x = Inr (PDict c (AList.update k x its))"
| "setitem v k x = Inl TypeError"

text \<open>\<open>isinstance(v, dict)\<close> holds of both dictionary classes.\<close>

fun is_dict :: "pyval \<Rightarrow> bool" where
  "is_dict (PDict c its) = True"
| "is_dict v = False"

text \<open>Values built from builtin types only, as \<open>yaml.safe_load\<close> returns them.\<close>

fun plain :: "pyval \<Rightarrow> bool" where
  "plain (PList xs) = list_all plain xs"
| "plain (PDict c its) = (c = Plain_dict \<and> list_all plain (map snd its))"
| "plain (PPath p) = False"
| "plain (PMastodon c u) = False"
| "plain v = True"

text \<open>Sequencing of expressions that may raise.\<close>

definition and_then :: "error + 'a \<Rightarrow> ('a \<Rightarrow> error + 'b) \<Rightarrow> error + 'b" where
  "and_then r f = (case r of Inl e \<Rightarrow> Inl e | Inr x \<Rightarrow> f x)"

subsection \<open>The collaborators: file system, YAML library, Mastodon library\<close>

type_synonym path = "string list"

text \<open>
  The keyword arguments of \<open>Mastodon.account_statuses\<close> and \<open>Mastodon.status_post\<close>. An
  optional field that is \<open>None\<close> stands for a keyword the call does not pass.
\<close>

record statuses_query =
  only_media :: bool
  pinned :: bool
  exclude_replies :: bool
  exclude_reblogs :: bool
  tagged :: pyval
  max_id :: pyval
  min_id :: pyval
  since_id :: pyval
  limit :: int

record status_post_args =
  status :: pyval
  post_in_reply_to_id :: pyval
  post_visibility :: pyval
  language :: string
  sensitive :: "bool option"
  spoiler_text :: "string option"
  scheduled_at :: "pyval option"

text \<open>
  The calls the program makes to the Mastodon library. The first argument of a method call
  is the client object it is made on.
\<close>

datatype call =
    Mastodon_new string pyval
  | Register_application pyval
  | Log_in pyval string string string
  | Me pyval
  | Account_statuses pyval pyval statuses_query
  | Status_post pyval status_post_args

text \<open>
  What the program does not define itself: the home directory, \<open>yaml.safe_load\<close>,
  \<open>yaml.safe_dump\<close> (with the options \<open>_save_config\<close> passes), the answer of the Mastodon
  library to a call given the calls made before it, and the text that \<open>log_in\<close> stores in
  its \<open>to_file\<close>.
\<close>

record collaborators =
  home :: path
  safe_load :: "string \<Rightarrow> error + pyval"
  safe_dump :: "pyval \<Rightarrow> error + string"
  respond :: "call list \<Rightarrow> call \<Rightarrow> error + pyval"
  to_file_text :: "pyval \<Rightarrow> string"

text \<open>
  The world: the directories and files that exist, every write to a file so far and every
  call to the Mastodon library so far, oldest first.
\<close>

record world =
  dirs :: "path set"
  files :: "path \<rightharpoonup> string"
  writes :: "(path \<times> string) list"
  calls :: "call list"

type_synonym 'a outcome = "(error + 'a) \<times> world"

definition then_do :: "(world \<Rightarrow> 'a outcome) \<Rightarrow> ('a \<Rightarrow> world \<Rightarrow> 'b outcome) \<Rightarrow> world \<Rightarrow> 'b outcome" where
  "then_do m f w = (case m w of (Inl e, w') \<Rightarrow> (Inl e, w') | (Inr x, w') \<Rightarrow> f x w')"

definition pure :: "error + 'a \<Rightarrow> world \<Rightarrow> 'a outcome" where
  "pure r w = (r, w)"

definition invoke :: "collaborators \<Rightarrow> call \<Rightarrow> world \<Rightarrow> pyval outcome" where
  "invoke lib c w = (respond lib (calls w) c, w\<lparr>calls := calls w @ [c]\<rparr>)"

text \<open>\<open>open(p, "w").write(content)\<close>: the file holds \<open>content\<close> afterwards.\<close>

definition write_file :: "path \<Rightarrow> string \<Rightarrow> world \<Rightarrow> unit outcome" where
  "write_file p content w =
     (Inr (), w\<lparr>files := (files w)(p \<mapsto> content), writes := writes w @ [(p, content)]\<rparr>)"

section \<open>The class MastodonClientApp\<close>

text \<open>
  An instance is its attribute dictionary. \<open>self.name\<close> for a data attribute raises
  \<open>AttributeError\<close> when no statement has assigned \<open>self.name\<close> before (the class body
  defines methods only).
\<close>

type_synonym obj = "string \<rightharpoonup> pyval"

definition self_attr :: "obj \<Rightarrow> string \<Rightarrow> error + pyval" where
  "self_attr self name = (case self name of Some v \<Rightarrow> Inr v | None \<Rightarrow> Inl AttributeError)"

definition APPLICATION_NAME :: string where
  "APPLICATION_NAME = ''my-app-name''"

definition py_base_url :: "string option \<Rightarrow> pyval" where
  "py_base_url base_url = (case base_url of None \<Rightarrow> PNone | Some s \<Rightarrow> PStr s)"

subsection \<open>_load_config\<close>

text \<open>
  The loop \<open>for (k, v) in data.items(): if isinstance(v, dict): data[k] = AttribAccessDict(v)\<close>,
  over the items still to visit and the dictionary being updated. \<open>AttribAccessDict(v)\<close> is a
  new dictionary of that class with the items of \<open>v\<close>.
\<close>

fun wrap_items :: "items \<Rightarrow> items \<Rightarrow> items" where
  "wrap_items [] data = data"
| "wrap_items ((k, v) # rest) data =
     wrap_items rest
       (case v of PDict c its \<Rightarrow> AList.update k (PDict AttribAccessDict its) data | _ \<Rightarrow> data)"

definition load_config :: "collaborators \<Rightarrow> obj \<Rightarrow> world \<Rightarrow> obj outcome" where
  "load_config lib self w =
     (case self ''config_file'' of
        Some (PPath p) \<Rightarrow>
          (case files w p of
             None \<Rightarrow> (Inl FileNotFoundError, w)
           | Some text \<Rightarrow>
               (case safe_load lib text of
                  Inl e \<Rightarrow> (Inl e, w)
                | Inr d \<Rightarrow>
                    (case (if d = PNone then PDict Plain_dict [] else d) of
                       PDict c its \<Rightarrow>
                         (Inr (self(''config'' \<mapsto> PDict AttribAccessDict (wrap_items its its))), w)
                     | _ \<Rightarrow> (Inl AttributeError, w))))
      | _ \<Rightarrow> (Inl AttributeError, w))"

subsection \<open>_save_config\<close>

text \<open>
  \<open>yaml.safe_dump(self.data, ...)\<close> reads the attribute \<open>data\<close> before anything is opened or
  written.
\<close>

definition save_config :: "collaborators \<Rightarrow> obj \<Rightarrow> world \<Rightarrow> unit outcome" where
  "save_config lib self w =
     (case self_attr self ''data'' of
        Inl e \<Rightarrow> (Inl e, w)
      | Inr d \<Rightarrow>
          (case safe_dump lib d of
             Inl e \<Rightarrow> (Inl e, w)
           | Inr output \<Rightarrow>
               (case self ''config_file'' of
                  Some (PPath p) \<Rightarrow> write_file p output w
                | _ \<Rightarrow> (Inl AttributeError, w))))"

subsection \<open>register_app\<close>

text \<open>
  Modelled from the spec: the method \<open>register_app\<close>, which \<open>__init__\<close> calls and the source
  file does not define. The spec has it invoke the registration collaborator
  \<open>register_application(instance_url) -> (client_id, client_secret)\<close> and store the two
  results into the \<open>application\<close> section of the configuration.
\<close>

definition register_app :: "collaborators \<Rightarrow> obj \<Rightarrow> world \<Rightarrow> obj outcome" where
  "register_app lib self w =
     (case and_then (self_attr self ''config'') (\<lambda>cfg.
           and_then (getattr cfg ''instance'') (\<lambda>inst.
           and_then (getattr inst ''base_url'') (\<lambda>url. Inr (cfg, url)))) of
        Inl e \<Rightarrow> (Inl e, w)
      | Inr (cfg, url) \<Rightarrow>
          then_do (invoke lib (Register_application url)) (\<lambda>r.
            pure (case r of
                PList [client_id, client_secret] \<Rightarrow>
                  and_then
                    (setitem cfg ''application''
                       (PDict AttribAccessDict
                          [(''client_id'', client_id), (''client_secret'', client_secret)]))
                    (\<lambda>cfg'. Inr (self(''config'' \<mapsto> cfg')))
              | _ \<Rightarrow> Inl ValueError)) w)"

subsection \<open>connect\<close>

text \<open>
  The constructor call, then \<open>log_in\<close>, which stores the credentials it obtained in its
  \<open>to_file\<close>, then \<open>me\<close>. The result \<open>r\<close> of \<open>log_in\<close> is not used otherwise.
\<close>

definition connect :: "collaborators \<Rightarrow> obj \<Rightarrow> world \<Rightarrow> obj outcome" where
  "connect lib self w =
     (case and_then (self_attr self ''config'') (\<lambda>cfg.
           and_then (getattr cfg ''instance'') (\<lambda>inst. getattr inst ''base_url'')) of
        Inl e \<Rightarrow> (Inl e, w)
      | Inr url \<Rightarrow>
          then_do (invoke lib (Mastodon_new ''my-application-clientcred.secret'' url)) (\<lambda>_.
          then_do
            (invoke lib
               (Log_in (PMastodon ''my-application-clientcred.secret'' url)
                  ''<email>'' ''<password>'' ''my-application-usercred.secret'')) (\<lambda>r.
          then_do (write_file [''my-application-usercred.secret''] (to_file_text lib r)) (\<lambda>_.
          then_do (invoke lib (Me (PMastodon ''my-application-clientcred.secret'' url))) (\<lambda>me.
          pure
            (Inr (self(''mastodon'' \<mapsto> PMastodon ''my-application-clientcred.secret'' url,
                       ''user'' \<mapsto> me))))))) w)"

subsection \<open>__init__\<close>

definition config_dir_of :: "collaborators \<Rightarrow> path option \<Rightarrow> path" where
  "config_dir_of lib config_dir =
     (case config_dir of Some d \<Rightarrow> d | None \<Rightarrow> home lib @ [''.config'', APPLICATION_NAME])"

definition config_file_of :: "collaborators \<Rightarrow> path option \<Rightarrow> path" where
  "config_file_of lib config_dir = config_dir_of lib config_dir @ [''config.yaml'']"

text \<open>The object after the assignments of \<open>self.config_dir\<close> and \<open>self.config_file\<close>.\<close>

definition new_self :: "collaborators \<Rightarrow> path option \<Rightarrow> obj" where
  "new_self lib config_dir =
     [''config_dir'' \<mapsto> PPath (config_dir_of lib config_dir),
      ''config_file'' \<mapsto> PPath (config_file_of lib config_dir)]"

text \<open>
  \<open>if self.config.instance.base_url and base_url: raise ValueError(...)\<close>
\<close>

definition check_base_url :: "obj \<Rightarrow> string option \<Rightarrow> error + unit" where
  "check_base_url self base_url =
     and_then (self_attr self ''config'') (\<lambda>cfg.
     and_then (getattr cfg ''instance'') (\<lambda>inst.
     and_then (getattr inst ''base_url'') (\<lambda>url.
       if truthy url \<and> truthy (py_base_url base_url) then Inl ValueError else Inr ())))"

text \<open>
  \<open>not self.config.get("application", {}).get("client_id", None)\<close>
\<close>

definition no_client_id :: "obj \<Rightarrow> error + bool" where
  "no_client_id self =
     and_then (self_attr self ''config'') (\<lambda>cfg.
     and_then (dict_get cfg ''application'' (PDict Plain_dict [])) (\<lambda>app.
     and_then (dict_get app ''client_id'' PNone) (\<lambda>client_id. Inr (\<not> truthy client_id))))"

text \<open>
  The body of that \<open>if\<close> up to the call of \<open>register_app\<close>: the assertion, then the two
  item assignments. The second one updates the dictionary stored under \<open>instance\<close> in place.
\<close>

definition set_instance :: "obj \<Rightarrow> string option \<Rightarrow> error + obj" where
  "set_instance self base_url =
     and_then (self_attr self ''config'') (\<lambda>cfg.
     and_then (dict_get cfg ''instance'' PNone) (\<lambda>inst.
       if inst \<noteq> PNone then Inl AssertionError
       else
         and_then (setitem cfg ''instance'' (PDict AttribAccessDict [])) (\<lambda>cfg1.
         and_then (getitem cfg1 ''instance'') (\<lambda>inst1.
         and_then (setitem inst1 ''base_url'' (py_base_url base_url)) (\<lambda>inst2.
         and_then (setitem cfg1 ''instance'' inst2) (\<lambda>cfg2.
           Inr (self(''config'' \<mapsto> cfg2))))))))"

text \<open>
  \<open>if not self.config.get("user", None): self.config["user"] = AttribAccessDict()\<close>
\<close>

definition ensure_user :: "obj \<Rightarrow> error + obj" where
  "ensure_user self =
     and_then (self_attr self ''config'') (\<lambda>cfg.
     and_then (dict_get cfg ''user'' PNone) (\<lambda>user.
       if \<not> truthy user
       then and_then (setitem cfg ''user'' (PDict AttribAccessDict [])) (\<lambda>cfg'.
              Inr (self(''config'' \<mapsto> cfg')))
       else Inr self))"

definition init :: "collaborators \<Rightarrow> path option \<Rightarrow> string option \<Rightarrow> world \<Rightarrow> obj outcome" where
  "init lib config_dir base_url w =
     (if config_dir_of lib config_dir \<notin> dirs w then (Inl ValueError, w)
      else if files w (config_file_of lib config_dir) = None then (Inl ValueError, w)
      else
        then_do (load_config lib (new_self lib config_dir)) (\<lambda>self1.
        then_do (pure (check_base_url self1 base_url)) (\<lambda>_.
        then_do (pure (no_client_id self1)) (\<lambda>first_run.
        then_do
          (if first_run
           then then_do (pure (set_instance self1 base_url)) (register_app lib)
           else pure (Inr self1)) (\<lambda>self2.
        then_do (pure (ensure_user self2)) (\<lambda>self3.
        then_do (connect lib self3) (\<lambda>self4.
        then_do (save_config lib self4) (\<lambda>_.
        pure (Inr self4)))))))) w)"

subsection \<open>get_statuses and post_toot\<close>

definition get_statuses :: "collaborators \<Rightarrow> obj \<Rightarrow> int \<Rightarrow> world \<Rightarrow> pyval outcome" where
  "get_statuses lib self lim w =
     (case and_then (self_attr self ''mastodon'') (\<lambda>mastodon.
           and_then (self_attr self ''user'') (\<lambda>user.
           and_then (getattr user ''id'') (\<lambda>user_id. Inr (mastodon, user_id)))) of
        Inl e \<Rightarrow> (Inl e, w)
      | Inr (PMastodon c u, user_id) \<Rightarrow>
          invoke lib
            (Account_statuses (PMastodon c u) user_id
               \<lparr>only_media = False, pinned = False, exclude_replies = True,
                exclude_reblogs = True, tagged = PNone, max_id = PNone, min_id = PNone,
                since_id = PNone, limit = lim\<rparr>) w
      | Inr _ \<Rightarrow> (Inl AttributeError, w))"

text \<open>
  Modelled from the spec: the dataclass \<open>Message\<close>, which the source file does not show.
  The spec's outgoing message has a text, an optional reply-target id and a visibility;
  \<open>post_toot\<close> reads them as the attributes \<open>text\<close> (here \<open>text_attr\<close>),
  \<open>in_reply_to_id\<close> and \<open>visibility\<close>.
\<close>

record message =
  text_attr :: pyval
  in_reply_to_id :: pyval
  visibility :: pyval

definition post_toot :: "collaborators \<Rightarrow> obj \<Rightarrow> message \<Rightarrow> world \<Rightarrow> pyval outcome" where
  "post_toot lib self msg w =
     (case self_attr self ''mastodon'' of
        Inl e \<Rightarrow> (Inl e, w)
      | Inr (PMastodon c u) \<Rightarrow>
          invoke lib
            (Status_post (PMastodon c u)
               \<lparr>status = text_attr msg, post_in_reply_to_id = in_reply_to_id msg,
                post_visibility = visibility msg, language = ''en'', sensitive = None,
                spoiler_text = None, scheduled_at = None\<rparr>) w
      | Inr _ \<Rightarrow> (Inl AttributeError, w))"

section \<open>Concrete collaborators and inputs\<close>

text \<open>
  A configuration as a registered installation has it, a toy YAML library that knows five
  documents by name, and a Mastodon library whose calls all succeed.
\<close>

definition registered_doc :: pyval where
  "registered_doc = PDict Plain_dict
     [(''instance'', PDict Plain_dict [(''base_url'', PStr ''https://mastodon.example'')]),
      (''application'',
         PDict Plain_dict [(''client_id'', PStr ''abc''), (''client_secret'', PStr ''xyz'')]),
      (''user'',
         PDict Plain_dict [(''username'', PStr ''alice''), (''password'', PStr ''secret'')])]"

definition no_user_doc :: pyval where
  "no_user_doc = PDict Plain_dict
     [(''instance'', PDict Plain_dict [(''base_url'', PStr ''https://mastodon.example'')]),
      (''application'',
         PDict Plain_dict [(''client_id'', PStr ''abc''), (''client_secret'', PStr ''xyz'')])]"

definition stale_doc :: pyval where
  "stale_doc = PDict Plain_dict
     [(''instance'', PDict Plain_dict [(''base_url'', PStr ''https://mastodon.example'')])]"

definition nested_doc :: pyval where
  "nested_doc = PDict Plain_dict
     [(''user'',
         PDict Plain_dict
           [(''username'', PStr ''alice''),
            (''preferences'', PDict Plain_dict [(''posting:default:language'', PStr ''en'')])]),
      (''retries'', PInt 3)]"

definition example_posts :: "pyval list" where
  "example_posts =
     [PDict AttribAccessDict [(''id'', PInt 103), (''content'', PStr ''<p>three</p>'')],
      PDict AttribAccessDict [(''id'', PInt 102), (''content'', PStr ''<p>two</p>'')],
      PDict AttribAccessDict [(''id'', PInt 101), (''content'', PStr ''<p>one</p>'')]]"

fun example_respond :: "call list \<Rightarrow> call \<Rightarrow> error + pyval" where
  "example_respond history (Mastodon_new c u) = Inr PNone"
| "example_respond history (Register_application u) = Inr (PList [PStr ''abc'', PStr ''xyz''])"
| "example_respond history (Log_in m u p f) = Inr (PStr ''token'')"
| "example_respond history (Me m) =
     Inr (PDict AttribAccessDict [(''id'', PInt 7), (''acct'', PStr ''alice'')])"
| "example_respond history (Account_statuses m a q) =
     Inr (PList (take (nat (limit q)) example_posts))"
| "example_respond history (Status_post m a) =
     Inr (PDict AttribAccessDict
            [(''id'', PInt (int (length history))), (''content'', status a),
             (''visibility'', post_visibility a)])"

definition example_lib :: collaborators where
  "example_lib =
     \<lparr>home = [''home'', ''alice''],
      safe_load = (\<lambda>text.
        if text = [] then Inr PNone
        else if text = ''registered'' then Inr registered_doc
        else if text = ''no user'' then Inr no_user_doc
        else if text = ''stale'' then Inr stale_doc
        else if text = ''nested'' then Inr nested_doc
        else Inl YAMLError),
      safe_dump = (\<lambda>v. if v = registered_doc then Inr ''registered'' else Inr ''other''),
      respond = example_respond,
      to_file_text = (\<lambda>r. case r of PStr s \<Rightarrow> s | _ \<Rightarrow> [])\<rparr>"

text \<open>A world whose default configuration directory holds a configuration file.\<close>

definition world_with :: "string \<Rightarrow> world" where
  "world_with content =
     \<lparr>dirs = {[''home'', ''alice'', ''.config'', ''my-app-name'']},
      files = [[''home'', ''alice'', ''.config'', ''my-app-name'', ''config.yaml''] \<mapsto> content],
      writes = [],
      calls = []\<rparr>"

text \<open>A world with the directory and no file in it, and one with neither.\<close>

definition world_without_file :: world where
  "world_without_file =
     \<lparr>dirs = {[''home'', ''alice'', ''.config'', ''my-app-name'']}, files = Map.empty,
      writes = [], calls = []\<rparr>"

definition empty_world :: world where
  "empty_world = \<lparr>dirs = {}, files = Map.empty, writes = [], calls = []\<rparr>"

text \<open>
  The session objects that \<open>__init__\<close> has built when it reaches \<open>_save_config\<close>, from the
  file \<open>registered\<close> and from the file \<open>no user\<close>.
\<close>

definition example_client :: pyval where
  "example_client = PMastodon ''my-application-clientcred.secret'' (PStr ''https://mastodon.example'')"

definition example_session :: obj where
  "example_session =
     [''config_dir'' \<mapsto> PPath [''home'', ''alice'', ''.config'', ''my-app-name''],
      ''config_file'' \<mapsto> PPath [''home'', ''alice'', ''.config'', ''my-app-name'', ''config.yaml''],
      ''config'' \<mapsto> PDict AttribAccessDict
        [(''instance'', PDict AttribAccessDict [(''base_url'', PStr ''https://mastodon.example'')]),
         (''application'',
            PDict AttribAccessDict [(''client_id'', PStr ''abc''), (''client_secret'', PStr ''xyz'')]),
         (''user'',
            PDict AttribAccessDict [(''username'', PStr ''alice''), (''password'', PStr ''secret'')])],
      ''mastodon'' \<mapsto> example_client,
      ''user'' \<mapsto> PDict AttribAccessDict [(''id'', PInt 7), (''acct'', PStr ''alice'')]]"

definition unsaved_session :: obj where
  "unsaved_session =
     [''config_dir'' \<mapsto> PPath [''home'', ''alice'', ''.config'', ''my-app-name''],
      ''config_file'' \<mapsto> PPath [''home'', ''alice'', ''.config'', ''my-app-name'', ''config.yaml''],
      ''config'' \<mapsto> PDict AttribAccessDict
        [(''instance'', PDict AttribAccessDict [(''base_url'', PStr ''https://mastodon.example'')]),
         (''application'',
            PDict AttribAccessDict [(''client_id'', PStr ''abc''), (''client_secret'', PStr ''xyz'')]),
         (''user'', PDict AttribAccessDict [])],
      ''mastodon'' \<mapsto> example_client,
      ''user'' \<mapsto> PDict AttribAccessDict [(''id'', PInt 7), (''acct'', PStr ''alice'')]]"

definition hello_message :: message where
  "hello_message = \<lparr>text_attr = PStr ''hello'', in_reply_to_id = PNone, visibility = PStr ''public''\<rparr>"

section \<open>What the specification says, as definitions\<close>

text \<open>
  Loading wraps a top-level value that is a mapping into an attribute-accessible mapping
  with the same items, and keeps every other top-level value.
\<close>

fun wrap_top :: "pyval \<Rightarrow> pyval" where
  "wrap_top (PDict c its) = PDict AttribAccessDict its"
| "wrap_top v = v"

text \<open>The configuration has a key \<open>client_id\<close> in a section \<open>application\<close>.\<close>

definition has_client_id :: "pyval \<Rightarrow> bool" where
  "has_client_id cfg =
     (case getitem cfg ''application'' of
        Inl e \<Rightarrow> False
      | Inr app \<Rightarrow> (case getitem app ''client_id'' of Inl e \<Rightarrow> False | Inr v \<Rightarrow> True))"

text \<open>
  A call is no login, or it is a login with the \<open>username\<close> and \<open>password\<close> stored in the
  \<open>user\<close> section of the configuration.
\<close>

fun uses_stored_credentials :: "pyval \<Rightarrow> call \<Rightarrow> bool" where
  "uses_stored_credentials cfg (Log_in m username password f) =
     (and_then (getitem cfg ''user'') (\<lambda>user. getitem user ''username'') = Inr (PStr username)
      \<and> and_then (getitem cfg ''user'') (\<lambda>user. getitem user ''password'') = Inr (PStr password))"
| "uses_stored_credentials cfg c = True"

text \<open>
  The request for the account's own recent posts: replies and reblogs excluded, not
  restricted to pinned or media-only posts, no id bounds, the given limit.
\<close>

definition recent_posts_request :: "pyval \<Rightarrow> pyval \<Rightarrow> int \<Rightarrow> call" where
  "recent_posts_request client account_id lim =
     Account_statuses client account_id
       \<lparr>only_media = False, pinned = False, exclude_replies = True, exclude_reblogs = True,
        tagged = PNone, max_id = PNone, min_id = PNone, since_id = PNone, limit = lim\<rparr>"

text \<open>
  The request that creates a post: the message's text, reply target and visibility, the
  language fixed to \<open>en\<close>, no sensitivity flag, no spoiler text, no scheduling.
\<close>

definition create_post_request :: "pyval \<Rightarrow> message \<Rightarrow> call" where
  "create_post_request client msg =
     Status_post client
       \<lparr>status = text_attr msg, post_in_reply_to_id = in_reply_to_id msg,
        post_visibility = visibility msg, language = ''en'', sensitive = None,
        spoiler_text = None, scheduled_at = None\<rparr>"

section \<open>Invariants of a run\<close>

text \<open>The texts written to the file \<open>p\<close> so far, and the registration calls made so far.\<close>

definition writes_to :: "path \<Rightarrow> world \<Rightarrow> string list" where
  "writes_to p w = map snd (filter (\<lambda>entry. fst entry = p) (writes w))"

fun is_registration :: "call \<Rightarrow> bool" where
  "is_registration (Register_application u) = True"
| "is_registration c = False"

definition registrations :: "world \<Rightarrow> call list" where
  "registrations w = filter is_registration (calls w)"

text \<open>
  Between the worlds \<open>w0\<close> and \<open>w\<close> the file \<open>p\<close> was not written and kept its contents,
  and the registration collaborator was not called.
\<close>

definition kept :: "path \<Rightarrow> world \<Rightarrow> world \<Rightarrow> bool" where
  "kept p w0 w =
     (files w p = files w0 p \<and> writes_to p w = writes_to p w0
      \<and> registrations w = registrations w0)"

text \<open>
  \<open>keeps I m Q\<close>: started in a world where \<open>I\<close> holds, the step \<open>m\<close> ends in a world where
  \<open>I\<close> holds, and a value it returns satisfies \<open>Q\<close>. \<open>fails I m\<close>: started in a world
  where \<open>I\<close> holds, the step \<open>m\<close> raises, in a world where \<open>I\<close> holds.
\<close>

definition keeps :: "(world \<Rightarrow> bool) \<Rightarrow> (world \<Rightarrow> 'a outcome) \<Rightarrow> ('a \<Rightarrow> bool) \<Rightarrow> bool" where
  "keeps I m Q =
     (\<forall>w. I w \<longrightarrow> (case m w of (Inl e, w') \<Rightarrow> I w' | (Inr x, w') \<Rightarrow> I w' \<and> Q x))"

definition fails :: "(world \<Rightarrow> bool) \<Rightarrow> (world \<Rightarrow> 'a outcome) \<Rightarrow> bool" where
  "fails I m = (\<forall>w. I w \<longrightarrow> (\<exists>e w'. m w = (Inl e, w') \<and> I w'))"

section \<open>Properties\<close>

lemmas example_defs = example_lib_def world_with_def registered_doc_def no_user_doc_def
  stale_doc_def nested_doc_def config_dir_of_def config_file_of_def new_self_def
  APPLICATION_NAME_def example_client_def example_session_def unsaved_session_def

lemmas step_defs = init_def then_do_def pure_def load_config_def check_base_url_def
  and_then_def self_attr_def no_client_id_def set_instance_def register_app_def
  ensure_user_def connect_def invoke_def save_config_def write_file_def py_base_url_def Let_def

subsection \<open>Missing directory or file\<close>

text \<open>
  C6. When the configuration directory does not exist, or the configuration file does not
  exist in it, initialization raises \<open>ValueError\<close> (the specification's
  \<open>ConfigurationError\<close>) and leaves the world as it was: no file is created or written
  and no collaborator is called.
\<close>

theorem init_missing_dir_or_file:
  assumes "config_dir_of lib config_dir \<notin> dirs w
           \<or> files w (config_file_of lib config_dir) = None"
  shows "init lib config_dir base_url w = (Inl ValueError, w)"
  using assms by (auto simp: init_def)

theorem init_missing_dir_or_file_witness:
  "init example_lib None (Some ''https://mastodon.example'') world_without_file
     = (Inl ValueError, world_without_file)
   \<and> init example_lib (Some [''srv'', ''toots'']) None empty_world = (Inl ValueError, empty_world)"
proof
  have "files world_without_file (config_file_of example_lib None) = None"
    by (simp add: world_without_file_def)
  then show "init example_lib None (Some ''https://mastodon.example'') world_without_file
     = (Inl ValueError, world_without_file)"
    using init_missing_dir_or_file [of example_lib None world_without_file] by simp
  have "config_dir_of example_lib (Some [''srv'', ''toots'']) \<notin> dirs empty_world"
    by (simp add: empty_world_def)
  then show "init example_lib (Some [''srv'', ''toots'']) None empty_world
     = (Inl ValueError, empty_world)"
    using init_missing_dir_or_file [of example_lib "Some [''srv'', ''toots'']" empty_world]
    by simp
qed

subsection \<open>Loading\<close>

lemma update_fresh_prefix:
  "k \<notin> fst ` set pre \<Longrightarrow> AList.update k x (pre @ (k, v) # rest) = pre @ (k, x) # rest"
  by (induction pre) auto

lemma wrap_items_step:
  "k \<notin> fst ` set pre \<Longrightarrow>
   (case v of PDict c its \<Rightarrow> AList.update k (PDict AttribAccessDict its) (pre @ (k, v) # rest)
            | _ \<Rightarrow> pre @ (k, v) # rest) = pre @ (k, wrap_top v) # rest"
  by (cases v) (simp_all add: update_fresh_prefix)

text \<open>
  The loop, with \<open>pre\<close> the items already visited: on a dictionary (whose keys are
  distinct) it replaces each remaining value by its wrapping, in place.
\<close>

lemma wrap_items_prefix:
  "distinct (map fst (pre @ rest)) \<Longrightarrow>
   wrap_items rest (pre @ rest) = pre @ map (\<lambda>(k, v). (k, wrap_top v)) rest"
proof (induction rest arbitrary: pre)
  case Nil
  then show ?case by simp
next
  case (Cons kv rest)
  obtain k v where kv: "kv = (k, v)" by (cases kv)
  from Cons.prems kv have fresh: "k \<notin> fst ` set pre" by auto
  from Cons.prems kv have d: "distinct (map fst ((pre @ [(k, wrap_top v)]) @ rest))" by auto
  have "wrap_items (kv # rest) (pre @ kv # rest)
          = wrap_items rest ((pre @ [(k, wrap_top v)]) @ rest)"
    using wrap_items_step [OF fresh, of v rest] by (simp add: kv)
  also have "\<dots> = (pre @ [(k, wrap_top v)]) @ map (\<lambda>(k, v). (k, wrap_top v)) rest"
    by (rule Cons.IH [OF d])
  finally show ?case by (simp add: kv)
qed

lemma wrap_items_map:
  "distinct (map fst its) \<Longrightarrow> wrap_items its its = map (\<lambda>(k, v). (k, wrap_top v)) its"
  using wrap_items_prefix [of "[]" its] by simp

lemma plain_item: "plain (PDict c its) \<Longrightarrow> (k, v) \<in> set its \<Longrightarrow> plain v"
  by (force simp: list_all_iff)

text \<open>
  C10. Let the configuration file parse to a mapping of builtin values. Loading stores a
  top-level \<open>AttribAccessDict\<close> with the same keys in the same order, in which every
  top-level value that is a mapping has become an \<open>AttribAccessDict\<close> with its items
  untouched and every other top-level value is unchanged. So a value one level further
  down (an item of a top-level section) is still what the parser returned: a plain value,
  and when it is a mapping, a builtin \<open>dict\<close>, which does not give attribute access to
  its keys.
\<close>

theorem load_config_wraps_top_level_only:
  assumes "self ''config_file'' = Some (PPath p)"
    and "files w p = Some content"
    and "safe_load lib content = Inr (PDict c its)"
    and "distinct (map fst its)"
    and "plain (PDict c its)"
  shows "load_config lib self w =
           (Inr (self(''config'' \<mapsto>
                   PDict AttribAccessDict (map (\<lambda>(k, v). (k, wrap_top v)) its))), w)
         \<and> (\<forall>k v. (k, v) \<in> set its \<longrightarrow> \<not> is_dict v \<longrightarrow> wrap_top v = v)
         \<and> (\<forall>k c' its' k' x.
               (k, PDict c' its') \<in> set its \<longrightarrow> (k', x) \<in> set its' \<longrightarrow>
               wrap_top (PDict c' its') = PDict AttribAccessDict its'
               \<and> plain x \<and> (\<forall>c'' its''. x = PDict c'' its'' \<longrightarrow> c'' = Plain_dict))"
proof (intro conjI allI impI)
  show "load_config lib self w =
          (Inr (self(''config'' \<mapsto>
                  PDict AttribAccessDict (map (\<lambda>(k, v). (k, wrap_top v)) its))), w)"
    using assms(1-4) by (simp add: load_config_def wrap_items_map)
next
  fix k v assume "(k, v) \<in> set its" "\<not> is_dict v"
  then show "wrap_top v = v" by (cases v) simp_all
next
  fix k c' its' k' x
  assume a: "(k, PDict c' its') \<in> set its" and b: "(k', x) \<in> set its'"
  from assms(5) a have "plain (PDict c' its')" by (rule plain_item)
  then show x: "plain x" using b by (rule plain_item)
  show "wrap_top (PDict c' its') = PDict AttribAccessDict its'" by simp
  fix c'' its'' assume "x = PDict c'' its''"
  with x show "c'' = Plain_dict" by simp
qed

theorem load_config_wraps_top_level_only_witness:
  "load_config example_lib (new_self example_lib None) (world_with ''nested'') =
     (Inr ((new_self example_lib None)(''config'' \<mapsto> PDict AttribAccessDict
        [(''user'', PDict AttribAccessDict
            [(''username'', PStr ''alice''),
             (''preferences'', PDict Plain_dict [(''posting:default:language'', PStr ''en'')])]),
         (''retries'', PInt 3)])), world_with ''nested'')
   \<and> getattr (PDict Plain_dict [(''posting:default:language'', PStr ''en'')])
        ''posting:default:language'' = Inl AttributeError"
proof -
  let ?p = "[''home'', ''alice'', ''.config'', ''my-app-name'', ''config.yaml'']"
  have 1: "new_self example_lib None ''config_file'' = Some (PPath ?p)"
    by (simp add: example_defs)
  have 2: "files (world_with ''nested'') ?p = Some ''nested''"
    by (simp add: world_with_def)
  have 3: "safe_load example_lib ''nested'' = Inr (PDict Plain_dict
     [(''user'',
         PDict Plain_dict
           [(''username'', PStr ''alice''),
            (''preferences'', PDict Plain_dict [(''posting:default:language'', PStr ''en'')])]),
      (''retries'', PInt 3)])"
    by (simp add: example_lib_def nested_doc_def)
  show ?thesis
    using load_config_wraps_top_level_only
      [where self = "new_self example_lib None" and lib = example_lib
         and w = "world_with ''nested''", OF 1 2 3]
    by simp
qed

subsection \<open>Rules for steps\<close>

lemma keeps_pure: "(\<And>x. r = Inr x \<Longrightarrow> Q x) \<Longrightarrow> keeps I (pure r) Q"
  by (cases r) (simp_all add: keeps_def pure_def)

lemma keeps_then:
  assumes "keeps I m Q" and "\<And>x. Q x \<Longrightarrow> keeps I (f x) R"
  shows "keeps I (then_do m f) R"
  unfolding keeps_def
proof (intro allI impI)
  fix w assume "I w"
  with assms(1) have m: "case m w of (Inl e, w') \<Rightarrow> I w' | (Inr x, w') \<Rightarrow> I w' \<and> Q x"
    by (simp add: keeps_def)
  obtain r w1 where mw: "m w = (r, w1)" by (cases "m w")
  show "case then_do m f w of (Inl e, w') \<Rightarrow> I w' | (Inr x, w') \<Rightarrow> I w' \<and> R x"
  proof (cases r)
    case (Inl e)
    with m mw show ?thesis by (simp add: then_do_def)
  next
    case (Inr x)
    with m mw have "I w1" "Q x" by simp_all
    with assms(2) have "case f x w1 of (Inl e, w') \<Rightarrow> I w' | (Inr y, w') \<Rightarrow> I w' \<and> R y"
      by (simp add: keeps_def)
    with mw Inr show ?thesis by (simp add: then_do_def)
  qed
qed

lemma fails_then:
  assumes "keeps I m Q" and "\<And>x. Q x \<Longrightarrow> fails I (f x)"
  shows "fails I (then_do m f)"
  unfolding fails_def
proof (intro allI impI)
  fix w assume "I w"
  with assms(1) have m: "case m w of (Inl e, w') \<Rightarrow> I w' | (Inr x, w') \<Rightarrow> I w' \<and> Q x"
    by (simp add: keeps_def)
  obtain r w1 where mw: "m w = (r, w1)" by (cases "m w")
  show "\<exists>e w'. then_do m f w = (Inl e, w') \<and> I w'"
  proof (cases r)
    case (Inl e)
    with m mw show ?thesis by (simp add: then_do_def)
  next
    case (Inr x)
    with m mw have "I w1" "Q x" by simp_all
    with assms(2) have "\<exists>e w'. f x w1 = (Inl e, w') \<and> I w'"
      by (simp add: fails_def)
    with mw Inr show ?thesis by (simp add: then_do_def)
  qed
qed

subsection \<open>The steps of initialization\<close>

lemma load_config_world: "snd (load_config lib self w) = w"
  by (simp add: load_config_def split: option.split pyval.split sum.split)

lemma load_config_attrs:
  "load_config lib self w = (Inr self', w') \<Longrightarrow> name \<noteq> ''config'' \<Longrightarrow> self' name = self name"
  by (auto simp: load_config_def split: option.splits pyval.splits sum.splits if_splits)

lemma keeps_load_config:
  "self ''data'' = None \<Longrightarrow> keeps I (load_config lib self) (\<lambda>self'. self' ''data'' = None)"
  unfolding keeps_def
proof (intro allI impI)
  fix w assume d: "self ''data'' = None" and "I w"
  obtain r w' where l: "load_config lib self w = (r, w')" by (cases "load_config lib self w")
  with load_config_world [of lib self w] have "w' = w" by simp
  with l \<open>I w\<close> d show "case load_config lib self w of (Inl e, w') \<Rightarrow> I w'
      | (Inr self', w') \<Rightarrow> I w' \<and> self' ''data'' = None"
    by (cases r) (auto dest: load_config_attrs [where name = "''data''"])
qed

text \<open>
  Where \<open>self.config.instance.base_url\<close> can be read, \<open>self.config.get("instance", None)\<close>
  is not \<open>None\<close>: the assertion of the first-run branch fails, and \<open>register_app\<close> is
  never reached.
\<close>

lemma getattr_Inr:
  "getattr v name = Inr x \<Longrightarrow> \<exists>its. v = PDict AttribAccessDict its \<and> map_of its name = Some x"
  by (cases "(v, name)" rule: getattr.cases) (auto split: option.splits)

lemma assertion_fails_after_check:
  assumes "check_base_url self base_url = Inr u"
  shows "set_instance self b = Inl AssertionError"
proof (cases "self ''config''")
  case None
  with assms show ?thesis
    by (simp add: check_base_url_def and_then_def self_attr_def)
next
  case (Some cfg)
  with assms obtain inst url where inst: "getattr cfg ''instance'' = Inr inst"
    and url: "getattr inst ''base_url'' = Inr url"
    by (auto simp: check_base_url_def and_then_def self_attr_def split: sum.splits)
  from getattr_Inr [OF url] obtain its' where "inst = PDict AttribAccessDict its'"
    by auto
  moreover from getattr_Inr [OF inst] obtain its where "cfg = PDict AttribAccessDict its"
    and "map_of its ''instance'' = Some inst"
    by auto
  ultimately show ?thesis
    using Some by (simp add: set_instance_def and_then_def self_attr_def)
qed

lemma ensure_user_attrs:
  "ensure_user self = Inr self' \<Longrightarrow> name \<noteq> ''config'' \<Longrightarrow> self' name = self name"
  by (auto simp: ensure_user_def and_then_def self_attr_def
      split: option.splits sum.splits if_splits)

lemma kept_refl: "kept p w w"
  by (simp add: kept_def)

lemma keeps_write_file:
  "q \<noteq> p \<Longrightarrow> keeps (kept p w0) (write_file q content) (\<lambda>_. True)"
  by (simp add: keeps_def kept_def write_file_def writes_to_def registrations_def)

lemma keeps_invoke:
  "\<not> is_registration c \<Longrightarrow> keeps (kept p w0) (invoke lib c) (\<lambda>r. True)"
  by (simp add: keeps_def kept_def invoke_def writes_to_def registrations_def split: sum.split)

lemma keeps_connect:
  assumes "p \<noteq> [''my-application-usercred.secret'']" and "self ''data'' = None"
  shows "keeps (kept p w0) (connect lib self) (\<lambda>self'. self' ''data'' = None)"
proof (cases "and_then (self_attr self ''config'') (\<lambda>cfg.
           and_then (getattr cfg ''instance'') (\<lambda>inst. getattr inst ''base_url''))")
  case (Inl e)
  then show ?thesis by (simp add: keeps_def connect_def)
next
  case (Inr url)
  let ?m = "PMastodon ''my-application-clientcred.secret'' url"
  have "connect lib self =
      then_do (invoke lib (Mastodon_new ''my-application-clientcred.secret'' url)) (\<lambda>_.
      then_do (invoke lib
          (Log_in ?m ''<email>'' ''<password>'' ''my-application-usercred.secret'')) (\<lambda>r.
      then_do (write_file [''my-application-usercred.secret''] (to_file_text lib r)) (\<lambda>_.
      then_do (invoke lib (Me ?m)) (\<lambda>me.
      pure (Inr (self(''mastodon'' \<mapsto> ?m, ''user'' \<mapsto> me)))))))"
    using Inr by (simp add: connect_def fun_eq_iff)
  moreover have "keeps (kept p w0) \<dots> (\<lambda>self'. self' ''data'' = None)"
    using assms
    by (intro keeps_then [OF keeps_invoke] keeps_then [OF keeps_write_file] keeps_pure) auto
  ultimately show ?thesis by simp
qed

lemma fails_save_config:
  "self ''data'' = None \<Longrightarrow> fails I (then_do (save_config lib self) f)"
  by (simp add: fails_def then_do_def save_config_def self_attr_def)

lemma config_file_is_not_to_file:
  "config_file_of lib config_dir \<noteq> [''my-application-usercred.secret'']"
  by (cases "config_dir_of lib config_dir" rule: rev_cases) (auto simp: config_file_of_def)

lemma init_steps_fail:
  assumes p: "p \<noteq> [''my-application-usercred.secret'']" and d: "self0 ''data'' = None"
  shows "fails (kept p w0)
     (then_do (load_config lib self0) (\<lambda>self1.
      then_do (pure (check_base_url self1 base_url)) (\<lambda>_.
      then_do (pure (no_client_id self1)) (\<lambda>first_run.
      then_do
        (if first_run
         then then_do (pure (set_instance self1 base_url)) (register_app lib)
         else pure (Inr self1)) (\<lambda>self2.
      then_do (pure (ensure_user self2)) (\<lambda>self3.
      then_do (connect lib self3) (\<lambda>self4.
      then_do (save_config lib self4) (\<lambda>_.
      pure (Inr self4)))))))))"
proof (rule fails_then [OF keeps_load_config [where self = self0, OF d]])
  fix self1 :: obj
  assume d1: "self1 ''data'' = None"
  have tail: "fails (kept p w0)
      (then_do (pure (ensure_user self2)) (\<lambda>self3.
       then_do (connect lib self3) (\<lambda>self4.
       then_do (save_config lib self4) (\<lambda>_.
       pure (Inr self4)))))" if "self2 ''data'' = None" for self2
  proof (rule fails_then [where Q = "\<lambda>self3. self3 ''data'' = None"])
    show "keeps (kept p w0) (pure (ensure_user self2)) (\<lambda>self3. self3 ''data'' = None)"
      using that by (auto intro!: keeps_pure dest: ensure_user_attrs [where name = "''data''"])
    fix self3 :: obj
    assume "self3 ''data'' = None"
    then show "fails (kept p w0)
        (then_do (connect lib self3) (\<lambda>self4.
         then_do (save_config lib self4) (\<lambda>_. pure (Inr self4))))"
      by (intro fails_then [OF keeps_connect [OF p]] fails_save_config)
  qed
  show "fails (kept p w0)
     (then_do (pure (check_base_url self1 base_url)) (\<lambda>_.
      then_do (pure (no_client_id self1)) (\<lambda>first_run.
      then_do
        (if first_run
         then then_do (pure (set_instance self1 base_url)) (register_app lib)
         else pure (Inr self1)) (\<lambda>self2.
      then_do (pure (ensure_user self2)) (\<lambda>self3.
      then_do (connect lib self3) (\<lambda>self4.
      then_do (save_config lib self4) (\<lambda>_.
      pure (Inr self4))))))))"
  proof (rule fails_then [where Q = "\<lambda>u. check_base_url self1 base_url = Inr u"])
    show "keeps (kept p w0) (pure (check_base_url self1 base_url))
        (\<lambda>u. check_base_url self1 base_url = Inr u)"
      by (rule keeps_pure)
    fix u assume ok: "check_base_url self1 base_url = Inr u"
    show "fails (kept p w0)
       (then_do (pure (no_client_id self1)) (\<lambda>first_run.
        then_do
          (if first_run
           then then_do (pure (set_instance self1 base_url)) (register_app lib)
           else pure (Inr self1)) (\<lambda>self2.
        then_do (pure (ensure_user self2)) (\<lambda>self3.
        then_do (connect lib self3) (\<lambda>self4.
        then_do (save_config lib self4) (\<lambda>_.
        pure (Inr self4)))))))"
    proof (rule fails_then [where Q = "\<lambda>b. True"])
      show "keeps (kept p w0) (pure (no_client_id self1)) (\<lambda>b. True)"
        by (rule keeps_pure) simp
      fix first_run :: bool
      have dead: "then_do (pure (set_instance self1 base_url)) (register_app lib)
            = pure (Inl AssertionError)"
        using assertion_fails_after_check [OF ok, of base_url]
        by (simp add: then_do_def pure_def fun_eq_iff)
      show "fails (kept p w0)
         (then_do
            (if first_run
             then then_do (pure (set_instance self1 base_url)) (register_app lib)
             else pure (Inr self1)) (\<lambda>self2.
          then_do (pure (ensure_user self2)) (\<lambda>self3.
          then_do (connect lib self3) (\<lambda>self4.
          then_do (save_config lib self4) (\<lambda>_.
          pure (Inr self4))))))"
      proof (rule fails_then [where Q = "\<lambda>self2. self2 ''data'' = None"])
        show "keeps (kept p w0)
            (if first_run
             then then_do (pure (set_instance self1 base_url)) (register_app lib)
             else pure (Inr self1)) (\<lambda>self2. self2 ''data'' = None)"
          using d1 by (auto simp: dead intro!: keeps_pure)
      qed (rule tail)
    qed
  qed
qed

text \<open>
  Every run of \<open>__init__\<close> ends with an exception: the latest one is the
  \<open>AttributeError\<close> of \<open>self.data\<close> in \<open>_save_config\<close>, an attribute that no statement
  assigns. On the way the configuration file is not written and keeps its contents, and
  the registration collaborator is not called. (Python runs the \<open>assert\<close> statement; the
  model does not cover \<open>python -O\<close>, which skips it.)
\<close>

lemma init_always_raises:
  "\<exists>e w'. init lib config_dir base_url w = (Inl e, w')
      \<and> kept (config_file_of lib config_dir) w w'"
proof -
  have "new_self lib config_dir ''data'' = None"
    by (simp add: new_self_def)
  with config_file_is_not_to_file
  have "fails (kept (config_file_of lib config_dir) w)
     (then_do (load_config lib (new_self lib config_dir)) (\<lambda>self1.
      then_do (pure (check_base_url self1 base_url)) (\<lambda>_.
      then_do (pure (no_client_id self1)) (\<lambda>first_run.
      then_do
        (if first_run
         then then_do (pure (set_instance self1 base_url)) (register_app lib)
         else pure (Inr self1)) (\<lambda>self2.
      then_do (pure (ensure_user self2)) (\<lambda>self3.
      then_do (connect lib self3) (\<lambda>self4.
      then_do (save_config lib self4) (\<lambda>_.
      pure (Inr self4)))))))))"
    by (rule init_steps_fail)
  then show ?thesis
    using kept_refl [of "config_file_of lib config_dir" w]
    by (auto simp: init_def fails_def)
qed

text \<open>
  When the loaded configuration has a true \<open>instance.base_url\<close> and a non-empty base URL
  is passed as well, \<open>__init__\<close> raises \<open>ValueError\<close> and leaves the world as it was.
\<close>

lemma init_rejects_second_base_url:
  assumes "config_dir_of lib config_dir \<in> dirs w"
    and "files w (config_file_of lib config_dir) = Some content"
    and "load_config lib (new_self lib config_dir) w = (Inr self1, w1)"
    and "self1 ''config'' = Some cfg"
    and "getattr cfg ''instance'' = Inr inst"
    and "getattr inst ''base_url'' = Inr url"
    and "truthy url" and "b \<noteq> []"
  shows "init lib config_dir (Some b) w = (Inl ValueError, w)"
proof -
  from assms(3) load_config_world [of lib "new_self lib config_dir" w] have "w1 = w"
    by simp
  moreover have "check_base_url self1 (Some b) = Inl ValueError"
    using assms(4-8) by (simp add: check_base_url_def and_then_def self_attr_def py_base_url_def)
  ultimately show ?thesis
    using assms(1-3) by (simp add: init_def then_do_def pure_def)
qed

subsection \<open>First-run detection\<close>

lemma client_id_found:
  assumes "no_client_id self = Inr False" and "self ''config'' = Some cfg"
  shows "has_client_id cfg"
proof -
  from assms obtain app client_id
    where app: "dict_get cfg ''application'' (PDict Plain_dict []) = Inr app"
      and cid: "dict_get app ''client_id'' PNone = Inr client_id"
      and true: "truthy client_id"
    by (auto simp: no_client_id_def and_then_def self_attr_def split: sum.splits)
  from cid true obtain c' its' where app': "app = PDict c' its'"
    and found: "map_of its' ''client_id'' = Some client_id"
    by (cases app) (auto split: option.splits)
  from app app' found obtain c its where "cfg = PDict c its"
    and "map_of its ''application'' = Some app"
    by (cases cfg) (auto split: option.splits)
  with app' found show ?thesis
    by (simp add: has_client_id_def)
qed

text \<open>
  C7. Let the configuration directory and file exist and let loading succeed. When the
  loaded configuration has an \<open>instance\<close> section and no \<open>application.client_id\<close>,
  initialization ends with an exception in the world it started in: the registration
  collaborator has not been called and nothing has been written.
\<close>

theorem init_fails_fast_without_client_id:
  assumes "config_dir_of lib config_dir \<in> dirs w"
    and "files w (config_file_of lib config_dir) = Some content"
    and "load_config lib (new_self lib config_dir) w = (Inr self1, w1)"
    and "self1 ''config'' = Some cfg"
    and "getitem cfg ''instance'' = Inr inst"
    and "\<not> has_client_id cfg"
  shows "\<exists>e. init lib config_dir base_url w = (Inl e, w)"
proof -
  from assms(3) load_config_world [of lib "new_self lib config_dir" w] have w1: "w1 = w"
    by simp
  let ?rest = "\<lambda>self2.
        then_do (pure (ensure_user self2)) (\<lambda>self3.
        then_do (connect lib self3) (\<lambda>self4.
        then_do (save_config lib self4) (\<lambda>_.
        pure (Inr self4))))"
  have unfold: "init lib config_dir base_url w =
      then_do (pure (check_base_url self1 base_url)) (\<lambda>_.
      then_do (pure (no_client_id self1)) (\<lambda>first_run.
      then_do
        (if first_run
         then then_do (pure (set_instance self1 base_url)) (register_app lib)
         else pure (Inr self1)) ?rest)) w"
    using assms(1-3) w1 by (simp add: init_def then_do_def)
  show ?thesis
  proof (cases "check_base_url self1 base_url")
    case (Inl e)
    then show ?thesis by (simp add: unfold then_do_def pure_def)
  next
    case (Inr u)
    then have dead: "set_instance self1 base_url = Inl AssertionError"
      by (rule assertion_fails_after_check)
    show ?thesis
    proof (cases "no_client_id self1")
      case (Inl e)
      with Inr show ?thesis by (simp add: unfold then_do_def pure_def)
    next
      case first_run: (Inr b)
      with assms(4,6) client_id_found [of self1 cfg] have "b" by auto
      with Inr first_run dead show ?thesis by (simp add: unfold then_do_def pure_def)
    qed
  qed
qed

theorem init_fails_fast_without_client_id_witness:
  "\<exists>e. init example_lib None None (world_with ''stale'') = (Inl e, world_with ''stale'')"
proof -
  let ?cfg = "PDict AttribAccessDict
     [(''instance'', PDict AttribAccessDict [(''base_url'', PStr ''https://mastodon.example'')])]"
  let ?self1 = "(new_self example_lib None)(''config'' \<mapsto> ?cfg)"
  have 1: "config_dir_of example_lib None \<in> dirs (world_with ''stale'')"
    by (simp add: example_defs)
  have 2: "files (world_with ''stale'') (config_file_of example_lib None) = Some ''stale''"
    by (simp add: example_defs)
  have 3: "load_config example_lib (new_self example_lib None) (world_with ''stale'')
      = (Inr ?self1, world_with ''stale'')"
    by (simp add: load_config_def example_defs)
  have 4: "?self1 ''config'' = Some ?cfg" by simp
  have 5: "getitem ?cfg ''instance''
      = Inr (PDict AttribAccessDict [(''base_url'', PStr ''https://mastodon.example'')])"
    by simp
  have 6: "\<not> has_client_id ?cfg" by (simp add: has_client_id_def)
  show ?thesis
    by (rule init_fails_fast_without_client_id [OF 1 2 3 4 5 6])
qed

subsection \<open>Runs that the specification expects to succeed\<close>

text \<open>
  C3. An empty configuration file (no \<open>instance\<close> section) and a base URL passed by the
  caller: the read of \<open>self.config.instance\<close> raises \<open>AttributeError\<close>, before the passed
  URL is looked at; the world is as before.
\<close>

theorem init_without_instance_raises:
  "init example_lib None (Some ''https://mastodon.example'') (world_with [])
     = (Inl AttributeError, world_with [])"
  by (simp add: step_defs example_defs)

text \<open>
  C5. On a first run (empty configuration, base URL passed) and on a configuration that
  has an \<open>instance\<close> section and no \<open>application.client_id\<close>, initialization raises
  without a call to any collaborator: the registration collaborator is not invoked although
  \<open>application.client_id\<close> is absent.
\<close>

theorem init_first_run_never_registers:
  "fst (init example_lib None (Some ''https://mastodon.example'') (world_with []))
     = Inl AttributeError
   \<and> calls (snd (init example_lib None (Some ''https://mastodon.example'') (world_with []))) = []
   \<and> fst (init example_lib None None (world_with ''stale'')) = Inl AssertionError
   \<and> calls (snd (init example_lib None None (world_with ''stale''))) = []"
  by (simp add: step_defs example_defs)

text \<open>
  C1. A registered configuration and collaborators that all succeed: the constructor,
  \<open>log_in\<close> and \<open>me\<close> are called and answer, then \<open>_save_config\<close> raises
  \<open>AttributeError\<close>. The run does not succeed, the only file written is the \<open>to_file\<close> of
  \<open>log_in\<close>, and the configuration file holds what it held.
\<close>

theorem init_registered_never_saves:
  "fst (init example_lib None None (world_with ''registered'')) = Inl AttributeError
   \<and> calls (snd (init example_lib None None (world_with ''registered''))) =
       [Mastodon_new ''my-application-clientcred.secret'' (PStr ''https://mastodon.example''),
        Log_in example_client ''<email>'' ''<password>'' ''my-application-usercred.secret'',
        Me example_client]
   \<and> writes (snd (init example_lib None None (world_with ''registered''))) =
       [([''my-application-usercred.secret''], ''token'')]
   \<and> files (snd (init example_lib None None (world_with ''registered'')))
         [''home'', ''alice'', ''.config'', ''my-app-name'', ''config.yaml''] = Some ''registered''"
  by (simp add: step_defs example_defs)

text \<open>
  C2. A configuration file without a \<open>user\<close> section: loading, adding the empty \<open>user\<close>
  section and connecting build the session \<open>unsaved_session\<close>. On it \<open>_save_config\<close> raises
  \<open>AttributeError\<close> and writes nothing, so that loading the file again does not give the
  configuration of the session.
\<close>

theorem save_config_raises:
  "then_do (load_config example_lib (new_self example_lib None)) (\<lambda>self1.
     then_do (pure (ensure_user self1)) (connect example_lib)) (world_with ''no user'')
   = (Inr unsaved_session,
      (world_with ''no user'')
        \<lparr>files := (files (world_with ''no user''))
           ([''my-application-usercred.secret''] \<mapsto> ''token''),
         writes := [([''my-application-usercred.secret''], ''token'')],
         calls := [Mastodon_new ''my-application-clientcred.secret''
                     (PStr ''https://mastodon.example''),
                   Log_in example_client ''<email>'' ''<password>''
                     ''my-application-usercred.secret'',
                   Me example_client]\<rparr>)
   \<and> save_config example_lib unsaved_session (world_with ''no user'')
       = (Inl AttributeError, world_with ''no user'')
   \<and> and_then (fst (load_config example_lib unsaved_session (world_with ''no user'')))
         (\<lambda>reloaded. self_attr reloaded ''config'')
       \<noteq> self_attr unsaved_session ''config''"
  by (simp add: step_defs example_defs fun_eq_iff)

subsection \<open>Login\<close>

text \<open>
  C4, as stated, fails: with \<open>user.username = alice\<close> and \<open>user.password = secret\<close> in the
  configuration, the login call that initialization makes does not carry them.
\<close>

theorem login_ignores_stored_credentials:
  "\<not> list_all
       (uses_stored_credentials
          (PDict AttribAccessDict
             [(''instance'',
                 PDict AttribAccessDict [(''base_url'', PStr ''https://mastodon.example'')]),
              (''application'',
                 PDict AttribAccessDict
                   [(''client_id'', PStr ''abc''), (''client_secret'', PStr ''xyz'')]),
              (''user'',
                 PDict AttribAccessDict
                   [(''username'', PStr ''alice''), (''password'', PStr ''secret'')])]))
       (calls (snd (init example_lib None None (world_with ''registered''))))"
  by (simp add: step_defs example_defs)

text \<open>
  C4, amended. Where \<open>self.config.instance.base_url\<close> can be read, \<open>connect\<close> is exactly
  this: it calls the constructor with the client id \<open>my-application-clientcred.secret\<close> and
  that base URL; when the constructor answers it calls \<open>log_in\<close> with the fixed user name
  \<open><email>\<close>, the fixed password \<open><password>\<close> and the \<open>to_file\<close>
  \<open>my-application-usercred.secret\<close>, whatever the \<open>user\<close> section of the configuration
  holds; when \<open>log_in\<close> answers, its \<open>to_file\<close> is written and \<open>me\<close> is called; when \<open>me\<close>
  answers, the client and the account that \<open>me\<close> returned are stored in the session as
  \<open>mastodon\<close> and \<open>user\<close>. The first call that raises ends the run with its exception, after
  the calls made so far and no other.
\<close>

theorem connect_logs_in_with_fixed_credentials:
  assumes "self ''config'' = Some cfg"
    and "getattr cfg ''instance'' = Inr inst"
    and "getattr inst ''base_url'' = Inr url"
  shows "connect lib self w =
     (case respond lib (calls w) (Mastodon_new ''my-application-clientcred.secret'' url) of
        Inl e \<Rightarrow>
          (Inl e, w\<lparr>calls := calls w @ [Mastodon_new ''my-application-clientcred.secret'' url]\<rparr>)
      | Inr r \<Rightarrow>
          (case respond lib (calls w @ [Mastodon_new ''my-application-clientcred.secret'' url])
                  (Log_in (PMastodon ''my-application-clientcred.secret'' url)
                     ''<email>'' ''<password>'' ''my-application-usercred.secret'') of
             Inl e \<Rightarrow>
               (Inl e,
                w\<lparr>calls := calls w @
                   [Mastodon_new ''my-application-clientcred.secret'' url,
                    Log_in (PMastodon ''my-application-clientcred.secret'' url)
                      ''<email>'' ''<password>'' ''my-application-usercred.secret'']\<rparr>)
           | Inr token \<Rightarrow>
               (case respond lib
                       (calls w @
                          [Mastodon_new ''my-application-clientcred.secret'' url,
                           Log_in (PMastodon ''my-application-clientcred.secret'' url)
                             ''<email>'' ''<password>'' ''my-application-usercred.secret''])
                       (Me (PMastodon ''my-application-clientcred.secret'' url)) of
                  Inl e \<Rightarrow> Inl e
                | Inr me \<Rightarrow>
                    Inr (self(''mastodon'' \<mapsto> PMastodon ''my-application-clientcred.secret'' url,
                              ''user'' \<mapsto> me)),
                w\<lparr>files := (files w)
                     ([''my-application-usercred.secret''] \<mapsto> to_file_text lib token),
                  writes := writes w @
                     [([''my-application-usercred.secret''], to_file_text lib token)],
                  calls := calls w @
                   [Mastodon_new ''my-application-clientcred.secret'' url,
                    Log_in (PMastodon ''my-application-clientcred.secret'' url)
                      ''<email>'' ''<password>'' ''my-application-usercred.secret'',
                    Me (PMastodon ''my-application-clientcred.secret'' url)]\<rparr>)))"
proof -
  let ?new = "Mastodon_new ''my-application-clientcred.secret'' url"
  let ?m = "PMastodon ''my-application-clientcred.secret'' url"
  let ?login = "Log_in ?m ''<email>'' ''<password>'' ''my-application-usercred.secret''"
  have url: "and_then (self_attr self ''config'') (\<lambda>cfg.
           and_then (getattr cfg ''instance'') (\<lambda>inst. getattr inst ''base_url'')) = Inr url"
    using assms by (simp add: and_then_def self_attr_def)
  have run: "connect lib self w =
      then_do (invoke lib ?new) (\<lambda>_.
      then_do (invoke lib ?login) (\<lambda>r.
      then_do (write_file [''my-application-usercred.secret''] (to_file_text lib r)) (\<lambda>_.
      then_do (invoke lib (Me ?m)) (\<lambda>me.
      pure (Inr (self(''mastodon'' \<mapsto> ?m, ''user'' \<mapsto> me))))))) w"
    by (simp add: connect_def url)
  show ?thesis
  proof (cases "respond lib (calls w) ?new")
    case (Inl e)
    then show ?thesis by (simp add: run then_do_def invoke_def)
  next
    case new: (Inr r)
    show ?thesis
    proof (cases "respond lib (calls w @ [?new]) ?login")
      case (Inl e)
      with new show ?thesis by (simp add: run then_do_def invoke_def)
    next
      case login: (Inr token)
      show ?thesis
      proof (cases "respond lib (calls w @ [?new, ?login]) (Me ?m)")
        case (Inl e)
        with new login show ?thesis
          by (simp add: run then_do_def invoke_def write_file_def pure_def)
      next
        case (Inr me)
        with new login show ?thesis
          by (simp add: run then_do_def invoke_def write_file_def pure_def)
      qed
    qed
  qed
qed

theorem connect_logs_in_with_fixed_credentials_witness:
  "connect example_lib example_session (world_with ''registered'') =
     (Inr (example_session
         (''mastodon'' \<mapsto> example_client,
          ''user'' \<mapsto> PDict AttribAccessDict [(''id'', PInt 7), (''acct'', PStr ''alice'')])),
      (world_with ''registered'')
        \<lparr>files := (files (world_with ''registered''))
           ([''my-application-usercred.secret''] \<mapsto> ''token''),
         writes := [([''my-application-usercred.secret''], ''token'')],
         calls := [Mastodon_new ''my-application-clientcred.secret''
                     (PStr ''https://mastodon.example''),
                   Log_in example_client ''<email>'' ''<password>''
                     ''my-application-usercred.secret'',
                   Me example_client]\<rparr>)"
proof -
  let ?url = "PStr ''https://mastodon.example''"
  let ?inst = "PDict AttribAccessDict [(''base_url'', ?url)]"
  let ?cfg = "PDict AttribAccessDict
        [(''instance'', ?inst),
         (''application'',
            PDict AttribAccessDict [(''client_id'', PStr ''abc''), (''client_secret'', PStr ''xyz'')]),
         (''user'',
            PDict AttribAccessDict [(''username'', PStr ''alice''), (''password'', PStr ''secret'')])]"
  have 1: "example_session ''config'' = Some ?cfg" by (simp add: example_session_def)
  have 2: "getattr ?cfg ''instance'' = Inr ?inst" by simp
  have 3: "getattr ?inst ''base_url'' = Inr ?url" by simp
  show ?thesis
    using connect_logs_in_with_fixed_credentials
      [where self = example_session and lib = example_lib and w = "world_with ''registered''",
       OF 1 2 3]
    by (simp add: example_lib_def world_with_def example_client_def)
qed

subsection \<open>Reading and writing posts\<close>

text \<open>
  C8. On a session with a client and an account that has an \<open>id\<close>, \<open>get_statuses\<close> with
  the limit \<open>lim\<close> (positive or not) makes one call: the request for the account's own
  posts with replies and reblogs excluded, \<open>pinned\<close> and \<open>only_media\<close> false, no \<open>tagged\<close>,
  \<open>max_id\<close>, \<open>min_id\<close> or \<open>since_id\<close>, and the limit \<open>lim\<close>. It returns what the
  collaborator answers, an exception included; so a list of at most \<open>lim\<close> posts that the
  collaborator answers is the result as it is.
\<close>

theorem get_statuses_passes_request_through:
  assumes "self ''mastodon'' = Some (PMastodon c u)"
    and "self ''user'' = Some user"
    and "getattr user ''id'' = Inr account_id"
  shows "get_statuses lib self lim w =
           (respond lib (calls w) (recent_posts_request (PMastodon c u) account_id lim),
            w\<lparr>calls := calls w @ [recent_posts_request (PMastodon c u) account_id lim]\<rparr>)
         \<and> (\<forall>posts.
               respond lib (calls w) (recent_posts_request (PMastodon c u) account_id lim)
                 = Inr (PList posts) \<and> int (length posts) \<le> lim \<longrightarrow>
               fst (get_statuses lib self lim w) = Inr (PList posts)
               \<and> int (length posts) \<le> lim)"
  using assms
  by (simp add: get_statuses_def recent_posts_request_def and_then_def self_attr_def invoke_def)

theorem get_statuses_passes_request_through_witness:
  "get_statuses example_lib example_session 2 (world_with ''registered'') =
     (Inr (PList
        [PDict AttribAccessDict [(''id'', PInt 103), (''content'', PStr ''<p>three</p>'')],
         PDict AttribAccessDict [(''id'', PInt 102), (''content'', PStr ''<p>two</p>'')]]),
      (world_with ''registered'')\<lparr>calls := [recent_posts_request example_client (PInt 7) 2]\<rparr>)"
proof -
  have 1: "example_session ''mastodon''
      = Some (PMastodon ''my-application-clientcred.secret'' (PStr ''https://mastodon.example''))"
    by (simp add: example_session_def example_client_def)
  have 2: "example_session ''user''
      = Some (PDict AttribAccessDict [(''id'', PInt 7), (''acct'', PStr ''alice'')])"
    by (simp add: example_session_def)
  have 3: "getattr (PDict AttribAccessDict [(''id'', PInt 7), (''acct'', PStr ''alice'')]) ''id''
      = Inr (PInt 7)"
    by simp
  have "respond example_lib (calls (world_with ''registered''))
      (recent_posts_request example_client (PInt 7) 2)
      = Inr (PList
        [PDict AttribAccessDict [(''id'', PInt 103), (''content'', PStr ''<p>three</p>'')],
         PDict AttribAccessDict [(''id'', PInt 102), (''content'', PStr ''<p>two</p>'')]])"
    by (simp add: example_lib_def recent_posts_request_def example_posts_def)
  then show ?thesis
    using get_statuses_passes_request_through
      [where self = example_session and lib = example_lib and w = "world_with ''registered''",
       OF 1 2 3]
    by (simp add: example_client_def world_with_def)
qed

text \<open>
  C9. On a session with a client, \<open>post_toot\<close> makes one call: the request that creates a
  post with the message's text, reply target and visibility, the language \<open>en\<close>, and no
  \<open>sensitive\<close>, \<open>spoiler_text\<close> or \<open>scheduled_at\<close> argument. It returns what the
  collaborator answers, an exception included.
\<close>

theorem post_toot_passes_message_through:
  assumes "self ''mastodon'' = Some (PMastodon c u)"
  shows "post_toot lib self msg w =
           (respond lib (calls w) (create_post_request (PMastodon c u) msg),
            w\<lparr>calls := calls w @ [create_post_request (PMastodon c u) msg]\<rparr>)"
  using assms
  by (simp add: post_toot_def create_post_request_def self_attr_def invoke_def)

theorem post_toot_passes_message_through_witness:
  "post_toot example_lib example_session hello_message (world_with ''registered'') =
     (Inr (PDict AttribAccessDict
             [(''id'', PInt 0), (''content'', PStr ''hello''), (''visibility'', PStr ''public'')]),
      (world_with ''registered'')
        \<lparr>calls := [Status_post example_client
           \<lparr>status = PStr ''hello'', post_in_reply_to_id = PNone,
            post_visibility = PStr ''public'', language = ''en'', sensitive = None,
            spoiler_text = None, scheduled_at = None\<rparr>]\<rparr>)"
proof -
  have 1: "example_session ''mastodon''
      = Some (PMastodon ''my-application-clientcred.secret'' (PStr ''https://mastodon.example''))"
    by (simp add: example_session_def example_client_def)
  show ?thesis
    using post_toot_passes_message_through
      [where self = example_session and lib = example_lib and w = "world_with ''registered''"
         and msg = hello_message, OF 1]
    by (simp add: example_lib_def example_client_def world_with_def create_post_request_def
        hello_message_def)
qed

end
